theory Spec2Isabelle
  imports Complex_Main "HOL-Library.Monad_Syntax"
begin

section \<open>Numbers and configuration\<close>

text \<open>
  The controller computes on Python floats and ints. Angles, deltas and zoom percentages are
  modelled as \<^typ>\<open>real\<close> (floats without rounding error), percentages and packet speed
  values as \<^typ>\<open>int\<close>. Python's \<^verbatim>\<open>x % m\<close> on floats takes the sign of the
  divisor, and \<^verbatim>\<open>int(x)\<close> truncates towards zero.
\<close>

definition fmod :: "real \<Rightarrow> real \<Rightarrow> real" where
  "fmod x m = x - m * of_int \<lfloor>x / m\<rfloor>"

definition py_int :: "real \<Rightarrow> int" where
  "py_int x = (if 0 \<le> x then \<lfloor>x\<rfloor> else \<lceil>x\<rceil>)"

datatype error = TypeError | UnboundLocalError | KeyError | ZeroDivisionError | ValueError

text \<open>
  One entry of the device list (\<^verbatim>\<open>apcr\<close>). A wall bound is \<open>None\<close> when the key is
  missing or stored as \<^verbatim>\<open>None\<close>; \<open>adaptive_speed_map z\<close> is the value under the key
  \<^verbatim>\<open>adaptive_speed_map_<z>\<close>, \<open>None\<close> when missing or \<^verbatim>\<open>None\<close>. An entry always
  carries its \<^verbatim>\<open>camid\<close>, \<^verbatim>\<open>name\<close> and \<^verbatim>\<open>ip\<close>, so it is never an empty
  dictionary; an \<^verbatim>\<open>apcr\<close> argument that may be \<^verbatim>\<open>None\<close> is an
  \<open>apcr option\<close>.
\<close>

record apcr =
  camid :: nat
  virtualwallstart_pan :: "real option"
  virtualwallend_pan :: "real option"
  virtualwallstart_tilt :: "real option"
  virtualwallend_tilt :: "real option"
  adaptive_speed_map :: "nat \<Rightarrow> int option"

text \<open>
  The \<^verbatim>\<open>settings["global_settings"]\<close> dictionary, every field read through
  \<^verbatim>\<open>.get(key, default)\<close> holding the default when the key is missing. A
  \<^verbatim>\<open>settings\<close> argument is a \<open>global_settings option\<close>: \<open>None\<close> stands for
  \<^verbatim>\<open>settings\<close> being \<^verbatim>\<open>None\<close>, empty, or without the key
  \<^verbatim>\<open>"global_settings"\<close>.
\<close>

record global_settings =
  virtualwallpreset :: bool
  virtualwall :: bool
  adaptive_speed :: bool
  preset_transition_speed :: real

section \<open>Preset planner (presets.py)\<close>

definition norm360 :: "real \<Rightarrow> real" where
  "norm360 x = fmod x 360"

text \<open>
  presets.py defines \<^verbatim>\<open>native_to_normalized\<close> and \<^verbatim>\<open>inWall\<close> twice; the second
  definitions (after \<^verbatim>\<open>stop_recall\<close>) replace the first ones at import time and are
  the ones every caller in the module reaches.
\<close>

definition native_to_normalized :: "real \<Rightarrow> real" where
  "native_to_normalized angle =
     fmod (if \<bar>angle\<bar> > 359 then angle / 10 else angle) 360"

text \<open>The ordering of the two normalised bounds, \<open>(wall_start, wall_end)\<close>.\<close>

definition wall_order :: "real \<Rightarrow> real \<Rightarrow> real \<times> real" where
  "wall_order w1_norm w2_norm =
     (if w1_norm \<le> w2_norm then (w1_norm, w2_norm) else (w2_norm, w1_norm))"

text \<open>The membership test with its two branches, as written in the source.\<close>

definition wall_contains :: "real \<Rightarrow> real \<Rightarrow> real \<Rightarrow> bool" where
  "wall_contains wall_start wall_end p =
     (if wall_start \<le> wall_end then wall_start \<le> p \<and> p \<le> wall_end
      else p \<ge> wall_start \<or> p \<le> wall_end)"

definition inWall :: "real \<Rightarrow> real option \<Rightarrow> real option \<Rightarrow> bool" where
  "inWall angle w1 w2 =
     (case (w1, w2) of
        (Some v1, Some v2) \<Rightarrow>
          (case wall_order (native_to_normalized v1) (native_to_normalized v2) of
             (wall_start, wall_end) \<Rightarrow>
               wall_contains wall_start wall_end (native_to_normalized angle))
      | _ \<Rightarrow> False)"

subsection \<open>Sampling an arc\<close>

text \<open>
  The four \<^verbatim>\<open>while\<close> loops of \<^verbatim>\<open>sample_arc_normalized\<close>: \<open>current\<close> moves
  towards \<open>limit\<close> by \<open>step\<close>, and \<open>emit current\<close> is appended to \<open>points\<close>. With a
  step that is not positive a loop that is entered never ends, which is the value \<open>None\<close>.
\<close>

partial_function (option) while_up ::
  "(real \<Rightarrow> real) \<Rightarrow> real \<Rightarrow> real \<Rightarrow> real \<Rightarrow> real list \<Rightarrow> real list option" where
  "while_up emit current limit step points =
     (if current < limit
      then while_up emit (min (current + step) limit) limit step
             (points @ [emit (min (current + step) limit)])
      else Some points)"

partial_function (option) while_down ::
  "(real \<Rightarrow> real) \<Rightarrow> real \<Rightarrow> real \<Rightarrow> real \<Rightarrow> real list \<Rightarrow> real list option" where
  "while_down emit current limit step points =
     (if current > limit
      then while_down emit (max (current - step) limit) limit step
             (points @ [emit (max (current - step) limit)])
      else Some points)"

definition sample_arc_normalized :: "real \<Rightarrow> real \<Rightarrow> int \<Rightarrow> real \<Rightarrow> real list option" where
  "sample_arc_normalized start_norm end_norm direction step =
     do {
       points \<leftarrow>
         (if direction = 1 then
            (if end_norm > start_norm
             then while_up (\<lambda>c. c) start_norm end_norm step [start_norm]
             else do {
               ps \<leftarrow> while_up (\<lambda>c. fmod c 360) start_norm 360 step [start_norm];
               while_up (\<lambda>c. c) 0 end_norm step ps })
          else
            (if end_norm < start_norm
             then while_down (\<lambda>c. c) start_norm end_norm step [start_norm]
             else do {
               ps \<leftarrow> while_down (\<lambda>c. c) start_norm 0 step [start_norm];
               while_down (\<lambda>c. fmod c 360) 360 end_norm step ps }));
       Some (if last points \<noteq> end_norm then points @ [end_norm] else points)
     }"

text \<open>
  The \<^verbatim>\<open>for i in range(len(sample_points) - 1)\<close> loop: it looks at each point and its
  successor and stops at the first pair with a point inside the wall.
\<close>

fun crossing_scan :: "real \<Rightarrow> real \<Rightarrow> real list \<Rightarrow> bool" where
  "crossing_scan wall_start wall_end (pt # next_pt # rest) =
     (if wall_contains wall_start wall_end pt \<or> wall_contains wall_start wall_end next_pt
      then True
      else crossing_scan wall_start wall_end (next_pt # rest))"
| "crossing_scan wall_start wall_end [pt] = False"
| "crossing_scan wall_start wall_end [] = False"

definition rotation_crosses_wall ::
  "real \<Rightarrow> real \<Rightarrow> int \<Rightarrow> real option \<Rightarrow> real option \<Rightarrow> bool option" where
  "rotation_crosses_wall start end direction w1 w2 =
     (case (w1, w2) of
        (Some v1, Some v2) \<Rightarrow>
          (case wall_order (native_to_normalized v1) (native_to_normalized v2) of
             (wall_start, wall_end) \<Rightarrow>
               do {
                 sample_points \<leftarrow>
                   sample_arc_normalized (native_to_normalized start)
                     (native_to_normalized end) direction 2;
                 Some (crossing_scan wall_start wall_end sample_points)
               })
      | _ \<Rightarrow> Some False)"

subsection \<open>Choosing the rotation\<close>

text \<open>The \<^verbatim>\<open>x / 10.0 if abs(x) > 359 else x\<close> conversion applied to every input.\<close>

definition to_deg :: "real \<Rightarrow> real" where
  "to_deg x = (if \<bar>x\<bar> > 359 then x / 10 else x)"

definition calculate_shortest_rotation :: "real \<Rightarrow> real \<Rightarrow> real \<times> int" where
  "calculate_shortest_rotation a b =
     (let rotation0 = to_deg b - to_deg a;
          rotation = (if rotation0 > 180 then rotation0 - 360
                      else if rotation0 < - 180 then rotation0 + 360 else rotation0)
      in (rotation, if rotation \<ge> 0 then 1 else - 1))"

definition cw_rotation :: "real \<Rightarrow> real \<Rightarrow> real" where
  "cw_rotation a_norm b_norm =
     (let cw_rot = fmod (a_norm - b_norm) 360
      in - (if cw_rot > 180 then cw_rot - 360 else cw_rot))"

definition ccw_rotation :: "real \<Rightarrow> real \<Rightarrow> real" where
  "ccw_rotation a_norm b_norm =
     (let ccw_rot = fmod (b_norm - a_norm) 360
      in if ccw_rot > 180 then ccw_rot - 360 else ccw_rot)"

definition is_at_lower_half :: "real \<Rightarrow> real \<Rightarrow> real \<Rightarrow> bool" where
  "is_at_lower_half a_norm w1 w2 =
     (let lower = min w1 w2; upper = max w1 w2
      in if w1 \<le> w2 then (a_norm - lower) < (upper - a_norm)
         else if a_norm \<ge> lower then (a_norm - lower) < (360 - a_norm + upper)
         else (360 - lower + a_norm) < (upper - a_norm))"

text \<open>
  The exit from inside the wall: \<open>(exit_pt, exit_dir, exit_dist)\<close> for a start \<open>a_norm\<close>
  and the normalised bounds \<open>w1\<close>, \<open>w2\<close>.
\<close>

definition wall_exit :: "real \<Rightarrow> real \<Rightarrow> real \<Rightarrow> real \<times> int \<times> real" where
  "wall_exit a_norm w1 w2 =
     (let lower = min w1 w2; upper = max w1 w2
      in if is_at_lower_half a_norm w1 w2
         then (let exit_pt = norm360 (lower - 1);
                   exit_dist = fmod (a_norm - exit_pt) 360
               in (exit_pt, - 1, - (if exit_dist > 180 then exit_dist - 360 else exit_dist)))
         else (let exit_pt = norm360 (upper + 1);
                   exit_dist = fmod (exit_pt - a_norm) 360
               in (exit_pt, 1, if exit_dist > 180 then exit_dist - 360 else exit_dist)))"

definition remaining_dist :: "real \<Rightarrow> int \<Rightarrow> real \<Rightarrow> real" where
  "remaining_dist exit_pt exit_dir b_norm =
     (if exit_dir = 1
      then (if b_norm \<ge> exit_pt then b_norm - exit_pt else 360 - exit_pt + b_norm)
      else (if exit_pt \<ge> b_norm then - (exit_pt - b_norm) else - (360 - b_norm + exit_pt)))"

text \<open>
  \<^verbatim>\<open>shortest_rotation(a, b, apcr, settings)\<close>. The outer \<open>option\<close> is \<open>None\<close> when a
  sampling loop does not return; the inner one is \<open>None\<close> for the result
  \<^verbatim>\<open>(None, None)\<close> and \<open>Some (distance, direction)\<close> otherwise.
\<close>

definition shortest_rotation ::
  "real \<Rightarrow> real \<Rightarrow> apcr option \<Rightarrow> global_settings option \<Rightarrow> (real \<times> int) option option" where
  "shortest_rotation a b ap settings =
     (let virtualwall_enabled = (case settings of None \<Rightarrow> False | Some gs \<Rightarrow> virtualwallpreset gs)
      in if \<not> virtualwall_enabled then Some (Some (calculate_shortest_rotation a b))
         else
           (let virtualwallstart = (case ap of None \<Rightarrow> None | Some c \<Rightarrow> virtualwallstart_pan c);
                virtualwallend = (case ap of None \<Rightarrow> None | Some c \<Rightarrow> virtualwallend_pan c)
            in case (virtualwallstart, virtualwallend) of
                 (Some ws, Some we) \<Rightarrow>
                   (let a_deg = to_deg a; b_deg = to_deg b;
                        wstart_deg = to_deg ws; wend_deg = to_deg we;
                        a_norm = norm360 a_deg; b_norm = norm360 b_deg;
                        cw_rot = cw_rotation a_norm b_norm;
                        ccw_rot = ccw_rotation a_norm b_norm;
                        shortest_option = (if \<bar>cw_rot\<bar> \<le> \<bar>ccw_rot\<bar> then cw_rot else ccw_rot);
                        shortest_dir = (if shortest_option = cw_rot then - 1 else 1)
                    in if inWall b_deg (Some wstart_deg) (Some wend_deg) then Some None
                       else if inWall a_deg (Some wstart_deg) (Some wend_deg) then
                         (case wall_exit a_norm (norm360 wstart_deg) (norm360 wend_deg) of
                            (exit_pt, exit_dir, exit_dist) \<Rightarrow>
                              Some (Some (exit_dist + remaining_dist exit_pt exit_dir b_norm,
                                          exit_dir)))
                       else
                         do {
                           cw_cross \<leftarrow>
                             rotation_crosses_wall a_deg b_deg (- 1) (Some wstart_deg) (Some wend_deg);
                           ccw_cross \<leftarrow>
                             rotation_crosses_wall a_deg b_deg 1 (Some wstart_deg) (Some wend_deg);
                           Some (if cw_cross \<and> ccw_cross then None
                                 else if cw_cross then Some (ccw_rot, 1)
                                 else if ccw_cross then Some (cw_rot, - 1)
                                 else Some (shortest_option, shortest_dir))
                         })
               | _ \<Rightarrow> Some (Some (calculate_shortest_rotation a b))))"

section \<open>Motion state machine and wall guard (controls.py)\<close>

datatype axis = Pan | Tilt | Roll | Zoom

datatype direction = Positive | Negative | ZoomIn | ZoomOut

datatype control_kind = AxisControl | ButtonControl | OtherControl

text \<open>
  The latest position sample of a device. \<^verbatim>\<open>get_current_position\<close> formats it as
  \<^verbatim>\<open>FDB;camid;pan;tilt;roll;zoom;\<close> and its callers split the string and parse the
  fields back; the string always has seven fields, and the model hands the numbers over
  directly.
\<close>

record position =
  pan :: real
  tilt :: real
  roll :: real
  zoom :: real

text \<open>
  A command packet, by what it encodes: the device, the axis and the signed speed. The two
  base packets of an axis differ only in the two speed bytes that
  \<^verbatim>\<open>send_movement_packet\<close> overwrites.
\<close>

datatype packet =
  IdlePacket nat axis
| MovePacket nat axis int
| ZoomPacket nat direction int

text \<open>
  A scheduled \<^verbatim>\<open>threading.Timer\<close> with the arguments it captured. The repeat timer
  also captures a snapshot of the accumulator, which \<^verbatim>\<open>repeat_command\<close> never reads.
\<close>

datatype callback =
  RepeatCallback axis apcr "global_settings option"
| IdleCallback axis apcr

text \<open>
  One slot of \<^verbatim>\<open>movement_state\<close>. The keys \<^verbatim>\<open>control_type\<close> and
  \<^verbatim>\<open>original_percentage\<close> may be absent (\<open>None\<close>); \<open>timer\<close> and \<open>idle_timer\<close>
  hold the handle of a timer object or \<^verbatim>\<open>None\<close>.
\<close>

record axis_state =
  active :: bool
  direction :: "direction option"
  percentage :: int
  control_type :: "control_kind option"
  original_percentage :: "int option"
  timer :: "nat option"
  idle_timer :: "nat option"

record tracker =
  entry_direction :: "int option"
  entry_position :: "real option"

text \<open>
  The module globals of controls.py. \<open>virtual_wall_tracker s ax\<close> is \<open>None\<close> when the
  dictionary has no key for the axis, \<open>Some None\<close> when the key holds \<^verbatim>\<open>None\<close> and
  \<open>Some (Some t)\<close> when it holds a dictionary. \<open>pending\<close> lists the timers that were
  started and have neither fired nor been cancelled, \<open>next_timer\<close> is the next fresh
  handle, and \<open>sent\<close> logs the calls of \<^verbatim>\<open>send_apcr_command\<close> in order.
\<close>

record controls_state =
  movement_state :: "axis \<Rightarrow> axis_state"
  current_position :: "nat \<Rightarrow> position option"
  cumulative_delta :: real
  predicted_block :: bool
  virtual_wall_tracker :: "axis \<Rightarrow> tracker option option"
  pending :: "(nat \<times> callback) list"
  next_timer :: nat
  sent :: "packet list"

definition send_apcr_command :: "packet \<Rightarrow> controls_state \<Rightarrow> controls_state" where
  "send_apcr_command p s = s\<lparr>sent := sent s @ [p]\<rparr>"

definition cancel_timer :: "nat \<Rightarrow> controls_state \<Rightarrow> controls_state" where
  "cancel_timer h s = s\<lparr>pending := filter (\<lambda>e. fst e \<noteq> h) (pending s)\<rparr>"

definition start_timer :: "callback \<Rightarrow> controls_state \<Rightarrow> nat \<times> controls_state" where
  "start_timer cb s =
     (next_timer s,
      s\<lparr>pending := pending s @ [(next_timer s, cb)], next_timer := Suc (next_timer s)\<rparr>)"

definition set_axis_state :: "axis \<Rightarrow> axis_state \<Rightarrow> controls_state \<Rightarrow> controls_state" where
  "set_axis_state as_name st s = s\<lparr>movement_state := (movement_state s)(as_name := st)\<rparr>"

text \<open>
  Every packet is written as a hexadecimal string with the device number formatted by
  \<^verbatim>\<open>f"{camid:02x}"\<close> and then decoded by \<^verbatim>\<open>bytes.fromhex\<close>. The rest of each
  string has an even number of digits, so the decoding raises \<^verbatim>\<open>ValueError\<close> exactly
  when the device number takes an odd number of hexadecimal digits, which begins at 256. A
  device number below 256 fills the one byte the packet format has for it.
\<close>

fun hex_digits :: "nat \<Rightarrow> nat" where
  "hex_digits n = (if n < 16 then 1 else Suc (hex_digits (n div 16)))"

declare hex_digits.simps [simp del]

definition fromhex_fails :: "nat \<Rightarrow> bool" where
  "fromhex_fails cam = odd (max 2 (hex_digits cam))"

definition get_idle_packet :: "axis \<Rightarrow> nat \<Rightarrow> packet" where
  "get_idle_packet as_name cam = IdlePacket cam as_name"

definition get_current_position :: "apcr \<Rightarrow> controls_state \<Rightarrow> position option" where
  "get_current_position ap s = current_position s (camid ap)"

definition get_current_zoom_percentage :: "apcr \<Rightarrow> controls_state \<Rightarrow> real option" where
  "get_current_zoom_percentage ap s =
     (case get_current_position ap s of
        None \<Rightarrow> None
      | Some pos \<Rightarrow> Some ((zoom pos - 1) * 100 / 4094))"

subsection \<open>Cumulative delta\<close>

definition update_cumulative_delta :: "real \<Rightarrow> controls_state \<Rightarrow> controls_state" where
  "update_cumulative_delta delta s = s\<lparr>cumulative_delta := cumulative_delta s + delta\<rparr>"

definition reset_cumulative_delta :: "controls_state \<Rightarrow> controls_state" where
  "reset_cumulative_delta s = s\<lparr>cumulative_delta := 0\<rparr>"

definition get_cumulative_delta :: "controls_state \<Rightarrow> real" where
  "get_cumulative_delta s = cumulative_delta s"

subsection \<open>Adaptive speed\<close>

definition default_mapping :: "nat \<Rightarrow> int option" where
  "default_mapping z = (if z = 0 then Some 50 else if z = 100 then Some 3 else None)"

definition optional_zoom_levels :: "nat list" where
  "optional_zoom_levels = [0, 10, 25, 50, 75, 100]"

definition zoom_speed_mapping :: "apcr \<Rightarrow> (nat \<times> int) list" where
  "zoom_speed_mapping ap =
     sort_key fst
       (List.map_filter
          (\<lambda>zoom_level.
             case adaptive_speed_map ap zoom_level of
               Some speed_value \<Rightarrow> Some (zoom_level, speed_value)
             | None \<Rightarrow> map_option (Pair zoom_level) (default_mapping zoom_level))
          optional_zoom_levels)"

text \<open>
  The interpolation loop over neighbouring breakpoints. \<open>Inr None\<close> means that the loop
  ended without a bracket; dividing by a zero zoom range raises.
\<close>

fun interpolate_scan :: "(nat \<times> int) list \<Rightarrow> real \<Rightarrow> error + int option" where
  "interpolate_scan ((lower_zoom, lower_speed) # (upper_zoom, upper_speed) # rest) z =
     (if real lower_zoom \<le> z \<and> z \<le> real upper_zoom
      then (if upper_zoom = lower_zoom then Inl ZeroDivisionError
            else Inr (Some (max 1 (min 100
                   (py_int (of_int lower_speed
                      + (z - real lower_zoom) / (real upper_zoom - real lower_zoom)
                        * of_int (upper_speed - lower_speed)))))))
      else interpolate_scan ((upper_zoom, upper_speed) # rest) z)"
| "interpolate_scan [p] z = Inr None"
| "interpolate_scan [] z = Inr None"

definition adaptive_from_mapping :: "(nat \<times> int) list \<Rightarrow> real \<Rightarrow> int \<Rightarrow> error + int" where
  "adaptive_from_mapping m z base_speed =
     (if length m < 2 then Inr base_speed
      else case interpolate_scan m z of
             Inl e \<Rightarrow> Inl e
           | Inr (Some v) \<Rightarrow> Inr v
           | Inr None \<Rightarrow> (if z < real (fst (hd m)) then Inr (snd (hd m)) else Inr (snd (last m))))"

definition calculate_adaptive_speed ::
  "real \<Rightarrow> int \<Rightarrow> global_settings option \<Rightarrow> apcr option \<Rightarrow> error + int" where
  "calculate_adaptive_speed zoom_percentage base_speed settings ap =
     (case settings of
        None \<Rightarrow> Inr base_speed
      | Some gs \<Rightarrow>
          if \<not> adaptive_speed gs then Inr base_speed
          else case ap of
                 None \<Rightarrow> Inr base_speed
               | Some a \<Rightarrow>
                   adaptive_from_mapping (zoom_speed_mapping a)
                     (max 0 (min 100 zoom_percentage)) base_speed)"

subsection \<open>Sending a movement packet\<close>

text \<open>
  The signed native speed of pan, tilt and roll for a direction and a percentage. Tilt is
  inverted; every direction other than \<^verbatim>\<open>'positive'\<close> takes the negative endpoints.
\<close>

definition speed_val :: "axis \<Rightarrow> direction option \<Rightarrow> int \<Rightarrow> int" where
  "speed_val as_name dir pct =
     (case (if as_name = Tilt
            then (if dir = Some Positive then (- 20, - 2024) else (20, 2024))
            else (if dir = Some Positive then (20, 2024) else (- 20, - 2024))) of
        (base_min, base_max) \<Rightarrow>
          py_int (of_int base_min + of_int ((pct - 1) * (base_max - base_min)) / 99))"

definition command_delta_of :: "int \<Rightarrow> real" where
  "command_delta_of sv = (of_int sv / 2024) * 90"

definition sign_of :: "real \<Rightarrow> int" where
  "sign_of delta = (if delta > 0 then 1 else if delta < 0 then - 1 else 0)"

text \<open>
  \<^verbatim>\<open>get_zoom_packet\<close>: \<open>None\<close> for a direction that is neither \<^verbatim>\<open>'in'\<close> nor
  \<^verbatim>\<open>'out'\<close>, when \<^verbatim>\<open>struct.pack\<close> rejects the speed (unsigned 16 bit for
  zooming in, signed for zooming out) and when the packet prefix cannot be decoded.
\<close>

definition get_zoom_packet :: "int \<Rightarrow> direction option \<Rightarrow> control_kind \<Rightarrow> nat \<Rightarrow> packet option" where
  "get_zoom_packet pct dir ctl cam =
     (if dir = Some ZoomIn then
        (let sv = (if ctl = AxisControl \<or> ctl = ButtonControl then 10 * pct else pct)
         in if 0 \<le> sv \<and> sv \<le> 65535 \<and> \<not> fromhex_fails cam
            then Some (ZoomPacket cam ZoomIn sv) else None)
      else if dir = Some ZoomOut then
        (let sv = (if ctl = AxisControl \<or> ctl = ButtonControl then - 10 * pct else - pct)
         in if - 32768 \<le> sv \<and> sv \<le> 32767 \<and> \<not> fromhex_fails cam
            then Some (ZoomPacket cam ZoomOut sv) else None)
      else None)"

text \<open>
  The wall check inside \<^verbatim>\<open>send_movement_packet\<close>: \<open>True\<close> when the command is
  replaced by an idle packet. Roll reads the tilt bounds and the tilt position, as the
  source's \<^verbatim>\<open>else\<close> branches do.
\<close>

definition live_wall_blocks ::
  "axis \<Rightarrow> int \<Rightarrow> apcr \<Rightarrow> global_settings option \<Rightarrow> controls_state \<Rightarrow> bool" where
  "live_wall_blocks as_name sv ap settings s =
     (case settings of
        None \<Rightarrow> False
      | Some gs \<Rightarrow>
          if \<not> virtualwall gs then False
          else
            (case (if as_name = Pan then (virtualwallstart_pan ap, virtualwallend_pan ap)
                   else (virtualwallstart_tilt ap, virtualwallend_tilt ap)) of
               (Some wall_start, Some wall_end) \<Rightarrow>
                 (case get_current_position ap s of
                    None \<Rightarrow> False
                  | Some pos \<Rightarrow>
                      (let current_pos = (if as_name = Pan then pan pos else tilt pos);
                           command_delta = command_delta_of sv;
                           wall_boundaries_flipped = (wall_start > wall_end);
                           current_in_wall =
                             (if wall_boundaries_flipped
                              then current_pos \<ge> wall_start \<or> current_pos \<le> wall_end
                              else wall_start \<le> current_pos \<and> current_pos \<le> wall_end);
                           expected_pos = current_pos + command_delta;
                           expected_in_wall =
                             (if wall_boundaries_flipped
                              then expected_pos \<ge> wall_start \<or> expected_pos \<le> wall_end
                              else wall_start \<le> expected_pos \<and> expected_pos \<le> wall_end);
                           moving_direction = sign_of command_delta
                       in if current_in_wall then
                            (let exit_direction =
                                   (if wall_boundaries_flipped
                                    then (if current_pos \<ge> wall_start then - 1 else 1)
                                    else (if current_pos < (wall_start + wall_end) / 2
                                          then - 1 else 1))
                             in moving_direction \<noteq> exit_direction)
                          else expected_in_wall))
             | _ \<Rightarrow> False))"

text \<open>
  \<^verbatim>\<open>send_movement_packet\<close>. A speed that \<^verbatim>\<open>struct.pack('<h', ...)\<close> rejects
  and a base packet that cannot be decoded raise inside the function's own
  \<^verbatim>\<open>try\<close>, which logs and sends nothing.
\<close>

definition send_movement_packet ::
  "axis \<Rightarrow> direction option \<Rightarrow> int \<Rightarrow> apcr \<Rightarrow> control_kind \<Rightarrow> global_settings option
     \<Rightarrow> controls_state \<Rightarrow> controls_state" where
  "send_movement_packet as_name dir pct ap ctl settings s =
     (if as_name = Zoom then
        (case get_zoom_packet pct dir ctl (camid ap) of
           None \<Rightarrow> s
         | Some p \<Rightarrow> send_apcr_command p s)
      else
        (let sv = speed_val as_name dir pct
         in if sv < - 32768 \<or> sv > 32767 then s
            else if fromhex_fails (camid ap) then s
            else if live_wall_blocks as_name sv ap settings s
            then send_apcr_command (get_idle_packet as_name (camid ap)) s
            else send_apcr_command (MovePacket (camid ap) as_name sv) s))"

subsection \<open>Repeat and stop\<close>

text \<open>The speed a repeat tick uses: the adaptive value when it applies, else the stored one.\<close>

definition repeat_percentage ::
  "axis \<Rightarrow> apcr \<Rightarrow> global_settings option \<Rightarrow> controls_state \<Rightarrow> error + int" where
  "repeat_percentage as_name ap settings s =
     (let st = movement_state s as_name; current_percentage = percentage st
      in if as_name \<noteq> Zoom \<and> (case settings of None \<Rightarrow> False | Some gs \<Rightarrow> adaptive_speed gs)
         then (case get_current_zoom_percentage ap s of
                 None \<Rightarrow> Inr current_percentage
               | Some zoom_percentage \<Rightarrow>
                   calculate_adaptive_speed zoom_percentage
                     (case original_percentage st of None \<Rightarrow> current_percentage | Some p \<Rightarrow> p)
                     settings (Some ap))
         else Inr current_percentage)"

text \<open>The angular delta of one tick: pan and tilt only.\<close>

definition repeat_delta :: "axis \<Rightarrow> direction option \<Rightarrow> int \<Rightarrow> real" where
  "repeat_delta as_name dir pct =
     (if as_name = Pan \<or> as_name = Tilt then command_delta_of (speed_val as_name dir pct) else 0)"

text \<open>
  \<^verbatim>\<open>repeat_command\<close>, the body of the repeat timer. The time stamp written by
  \<^verbatim>\<open>user_input_received\<close> is not part of the state.
\<close>

definition repeat_command ::
  "axis \<Rightarrow> apcr \<Rightarrow> global_settings option \<Rightarrow> controls_state \<Rightarrow> error + controls_state" where
  "repeat_command as_name ap settings s =
     (let st = movement_state s as_name
      in if active st then
           (case repeat_percentage as_name ap settings s of
              Inl e \<Rightarrow> Inl e
            | Inr current_percentage \<Rightarrow>
                (let s1 = update_cumulative_delta
                            (repeat_delta as_name (direction st) current_percentage) s
                 in if predicted_block s1 then Inr s1
                    else
                      (let s2 = (if current_percentage \<noteq> percentage st
                                 then set_axis_state as_name
                                        (st\<lparr>percentage := current_percentage\<rparr>) s1
                                 else s1);
                           s3 = send_movement_packet as_name (direction st) current_percentage ap
                                  (case control_type st of None \<Rightarrow> AxisControl | Some k \<Rightarrow> k)
                                  settings s2
                       in case start_timer (RepeatCallback as_name ap settings) s3 of
                            (h, s4) \<Rightarrow>
                              Inr (set_axis_state as_name
                                     ((movement_state s4 as_name)\<lparr>timer := Some h\<rparr>) s4))))
         else Inr s)"

text \<open>
  \<^verbatim>\<open>stop_movement\<close>; controls.py defines it twice, and the second definition, which
  also notifies the zoom listener, is the one in force. The listener is outside the state.
  The idle packet is decoded before anything is written, so a device number that cannot be
  decoded raises and leaves the state as it was.
\<close>

definition stop_movement :: "axis \<Rightarrow> apcr \<Rightarrow> controls_state \<Rightarrow> error + controls_state" where
  "stop_movement as_name ap s =
     (let st = movement_state s as_name
      in if active st then
           (if fromhex_fails (camid ap) then Inl ValueError
            else
              (let s1 = send_apcr_command (get_idle_packet as_name (camid ap)) s;
                   s2 = (case timer st of None \<Rightarrow> s1 | Some h \<Rightarrow> cancel_timer h s1);
                   s3 = (case idle_timer st of None \<Rightarrow> s2 | Some h \<Rightarrow> cancel_timer h s2)
               in case start_timer (IdleCallback as_name ap) s3 of
                    (h, s4) \<Rightarrow>
                      Inr (set_axis_state as_name
                             (st\<lparr>active := False, direction := None, percentage := 0,
                                 control_type := None, timer := None, idle_timer := Some h\<rparr>) s4)))
         else Inr s)"

definition send_idle_if_still_inactive ::
  "axis \<Rightarrow> apcr \<Rightarrow> controls_state \<Rightarrow> error + controls_state" where
  "send_idle_if_still_inactive as_name ap s =
     (if \<not> active (movement_state s as_name)
      then (if fromhex_fails (camid ap) then Inl ValueError
            else Inr (send_apcr_command (get_idle_packet as_name (camid ap)) s))
      else Inr s)"

text \<open>
  A pending timer fires: it leaves the pending list and its callback runs. A handle that is
  not pending (cancelled or already fired) does nothing.
\<close>

definition fire_timer :: "nat \<Rightarrow> controls_state \<Rightarrow> error + controls_state" where
  "fire_timer h s =
     (case map_of (pending s) h of
        None \<Rightarrow> Inr s
      | Some (IdleCallback as_name ap) \<Rightarrow>
          send_idle_if_still_inactive as_name ap (cancel_timer h s)
      | Some (RepeatCallback as_name ap settings) \<Rightarrow>
          repeat_command as_name ap settings (cancel_timer h s))"

text \<open>The pending idle-grace callbacks of an axis.\<close>

definition pending_idle :: "axis \<Rightarrow> controls_state \<Rightarrow> (nat \<times> callback) list" where
  "pending_idle as_name s =
     filter (\<lambda>e. case snd e of IdleCallback a ap \<Rightarrow> a = as_name | RepeatCallback a ap g \<Rightarrow> False)
       (pending s)"

subsection \<open>Virtual wall guard\<close>

text \<open>The \<^verbatim>\<open>inWall\<close> of controls.py: the bounds are normalised, the position is not.\<close>

definition controls_inWall :: "real \<Rightarrow> real \<Rightarrow> real \<Rightarrow> bool" where
  "controls_inWall x w1 w2 =
     (let lower = min (norm360 w1) (norm360 w2); upper = max (norm360 w1) (norm360 w2)
      in lower \<le> x \<and> x \<le> upper)"

definition use_absolute :: "real \<Rightarrow> real \<Rightarrow> bool" where
  "use_absolute wall_start wall_end =
     (wall_start < 0 \<or> wall_start \<ge> 360 \<or> wall_end < 0 \<or> wall_end \<ge> 360)"

text \<open>
  The local function \<^verbatim>\<open>pos_in_wall\<close> of \<^verbatim>\<open>update_virtual_wall_state\<close>, with the
  variables it closes over as arguments.
\<close>

definition pos_in_wall :: "real \<Rightarrow> real \<Rightarrow> real \<Rightarrow> real \<Rightarrow> bool" where
  "pos_in_wall wall_start wall_end margin pos =
     (if use_absolute wall_start wall_end then
        (if wall_start > wall_end
         then pos \<ge> wall_start - margin \<or> pos \<le> wall_end + margin
         else wall_start - margin \<le> pos \<and> pos \<le> wall_end + margin)
      else controls_inWall pos wall_start wall_end)"

definition allowed_exit_target :: "real \<Rightarrow> real \<Rightarrow> int \<Rightarrow> real" where
  "allowed_exit_target wall_start wall_end entry_dir =
     (if use_absolute wall_start wall_end then
        (if wall_start > wall_end
         then (if entry_dir > 0 then wall_end + 1 else wall_start - 1)
         else (if entry_dir > 0 then wall_start - 1 else wall_end + 1))
      else (if entry_dir > 0 then fmod (norm360 wall_start - 1) 360
            else fmod (norm360 wall_end + 1) 360))"

definition correction_delta_for :: "real \<Rightarrow> real \<Rightarrow> real" where
  "correction_delta_for target current_pos = fmod (target - current_pos + 540) 360 - 180"

definition empty_tracker :: tracker where
  "empty_tracker = \<lparr>entry_direction = None, entry_position = None\<rparr>"

definition set_tracker :: "axis \<Rightarrow> tracker option \<Rightarrow> controls_state \<Rightarrow> controls_state" where
  "set_tracker ax t s = s\<lparr>virtual_wall_tracker := (virtual_wall_tracker s)(ax := Some t)\<rparr>"

text \<open>
  \<^verbatim>\<open>update_virtual_wall_state(axis, current_pos, command_delta, apcr, virtualwall_active,
  margin)\<close>, returning \<open>(block, trigger_correction, correction_delta)\<close> and the new
  globals. \<^verbatim>\<open>virtual_wall_tracker.get(axis, {})\<close> yields the stored value when the key
  exists, also when that value is \<^verbatim>\<open>None\<close>; writing a key into \<^verbatim>\<open>None\<close> or
  testing \<^verbatim>\<open>"entry_direction" not in None\<close> raises \<^verbatim>\<open>TypeError\<close>.
\<close>

definition update_virtual_wall_state ::
  "axis \<Rightarrow> real \<Rightarrow> real \<Rightarrow> apcr \<Rightarrow> bool \<Rightarrow> real \<Rightarrow> controls_state
     \<Rightarrow> error + ((bool \<times> bool \<times> real) \<times> controls_state)" where
  "update_virtual_wall_state ax current_pos command_delta ap virtualwall_active margin s =
     (if \<not> virtualwall_active then Inr ((False, False, 0), set_tracker ax (Some empty_tracker) s)
      else
        (case (if ax = Pan then (virtualwallstart_pan ap, virtualwallend_pan ap)
               else (virtualwallstart_tilt ap, virtualwallend_tilt ap)) of
           (Some wall_start, Some wall_end) \<Rightarrow>
             (let expected_pos = current_pos + command_delta;
                  tr = (case virtual_wall_tracker s ax of None \<Rightarrow> Some empty_tracker | Some v \<Rightarrow> v);
                  current_in_wall = pos_in_wall wall_start wall_end margin current_pos;
                  expected_in_wall = pos_in_wall wall_start wall_end margin expected_pos
              in if \<not> current_in_wall \<and> \<not> expected_in_wall
                 then Inr ((False, False, 0), set_tracker ax (Some empty_tracker) s)
                 else if \<not> current_in_wall \<and> expected_in_wall then
                   (case tr of
                      None \<Rightarrow> Inl TypeError
                    | Some t \<Rightarrow>
                        Inr ((True, True, 0),
                             set_tracker ax
                               (Some (t\<lparr>entry_direction := Some (if command_delta > 0 then 1 else - 1),
                                        entry_position := Some current_pos\<rparr>)) s))
                 else
                   (case tr of
                      None \<Rightarrow> Inl TypeError
                    | Some t \<Rightarrow>
                        (let t' = (if entry_direction t = None
                                   then t\<lparr>entry_direction :=
                                            Some (if command_delta > 0 then 1 else - 1),
                                          entry_position := Some current_pos\<rparr>
                                   else t);
                             s' = (if entry_direction t = None then set_tracker ax (Some t') s else s);
                             entry_dir = (case entry_direction t' of None \<Rightarrow> 0 | Some d \<Rightarrow> d);
                             allowed_exit_direction = - entry_dir;
                             new_cmd_direction = sign_of command_delta
                         in if new_cmd_direction = allowed_exit_direction
                            then Inr ((False, False, 0), s')
                            else Inr ((True, True,
                                       correction_delta_for
                                         (allowed_exit_target wall_start wall_end entry_dir)
                                         current_pos), s'))))
         | _ \<Rightarrow> Inr ((False, False, 0), set_tracker ax (Some empty_tracker) s)))"

text \<open>
  \<^verbatim>\<open>virtual_wall_predictor\<close> is a \<^verbatim>\<open>while True\<close> loop, so it ends only by an
  exception; the model gives that exception and the globals at that moment. With a cached
  position the first iteration reaches the call of \<^verbatim>\<open>update_virtual_wall_state\<close>,
  which passes six positional arguments and then \<^verbatim>\<open>virtualwall_active\<close> and
  \<^verbatim>\<open>margin\<close> again as keywords: Python rejects the call with \<^verbatim>\<open>TypeError\<close>
  before the callee runs. Without a cached position the local \<^verbatim>\<open>current_pos\<close> was
  never assigned and \<^verbatim>\<open>predicted_pos = current_pos + delta\<close> raises. Neither path
  writes a global; the assignments to \<^verbatim>\<open>predicted_block\<close> after the call are never
  reached.
\<close>

definition virtual_wall_predictor ::
  "global_settings \<Rightarrow> apcr \<Rightarrow> axis \<Rightarrow> controls_state \<Rightarrow> error \<times> controls_state" where
  "virtual_wall_predictor settings ap as_name s =
     (case get_current_position ap s of
        None \<Rightarrow> (UnboundLocalError, s)
      | Some pos \<Rightarrow> (TypeError, s))"

text \<open>The module globals of controls.py as the module body initialises them.\<close>

definition initial_controls_state :: controls_state where
  "initial_controls_state =
     \<lparr>movement_state =
        (\<lambda>_. \<lparr>active = False, direction = None, percentage = 0, control_type = None,
               original_percentage = None, timer = None, idle_timer = None\<rparr>),
      current_position = (\<lambda>_. None),
      cumulative_delta = 0,
      predicted_block = False,
      virtual_wall_tracker = (\<lambda>ax. if ax = Pan \<or> ax = Tilt then Some None else None),
      pending = [],
      next_timer = 0,
      sent = []\<rparr>"

section \<open>Preset recall (presets.py)\<close>

text \<open>
  The arguments of one call of the segment executor \<^verbatim>\<open>do_move_segment\<close>. Every
  movement command of a recall is sent from inside that call.
\<close>

record segment =
  cPan :: real
  cTilt :: real
  cRoll :: real
  cZoom :: real
  tgtPan :: real
  tgtTilt :: real
  tgtRoll :: real
  tgtZoom :: real
  speed :: real
  seg_direction :: int

datatype recall_event = PositionRequest nat | MoveSegment segment

text \<open>
  The module globals of presets.py that a recall touches, and the log of what it sent:
  position requests and calls of the executor.
\<close>

record presets_state =
  recall_active :: bool
  localPan :: real
  events :: "recall_event list"

definition send_position_requests :: "nat \<Rightarrow> presets_state \<Rightarrow> presets_state" where
  "send_position_requests cam p =
     p\<lparr>events := events p @ [PositionRequest cam, PositionRequest cam, PositionRequest cam]\<rparr>"

definition reset_trackers :: "controls_state \<Rightarrow> controls_state" where
  "reset_trackers c =
     c\<lparr>virtual_wall_tracker := (virtual_wall_tracker c)(Pan := Some None, Tilt := Some None)\<rparr>"

text \<open>
  \<^verbatim>\<open>recall_preset(camid, slot_num, apcr, settings)\<close>; \<open>preset_data\<close> is what
  \<^verbatim>\<open>get_preset(camid, slot_num)\<close> returns, the stored target position or nothing. Every
  path after the lock check ends with \<^verbatim>\<open>_recall_active = False\<close>. Subscripting
  missing settings, or decoding a position request for a device number that cannot be
  decoded, raises inside the \<^verbatim>\<open>try\<close>, whose handler only logs. The result
  is \<open>None\<close> when the planner does not return. Sleeps, log lines and the temporary change
  of the position request frequency are left out.
\<close>

definition recall_preset ::
  "nat \<Rightarrow> position option \<Rightarrow> apcr \<Rightarrow> global_settings option
     \<Rightarrow> controls_state \<times> presets_state \<Rightarrow> (controls_state \<times> presets_state) option" where
  "recall_preset cam preset_data ap settings cp =
     (case cp of (c, p) \<Rightarrow>
        if camid ap \<noteq> cam then Some (c, p)
        else if recall_active p then Some (c, p)
        else
          (let c1 = reset_trackers c; p0 = p\<lparr>recall_active := False\<rparr>
           in case preset_data of
                None \<Rightarrow> Some (c1, p0)
              | Some tg \<Rightarrow>
                  (case settings of
                     None \<Rightarrow> Some (c1, p0)
                   | Some gs \<Rightarrow>
                       if virtualwallpreset gs
                          \<and> virtualwallstart_pan ap \<noteq> None \<and> virtualwallend_pan ap \<noteq> None
                          \<and> inWall (pan tg) (virtualwallstart_pan ap) (virtualwallend_pan ap)
                       then Some (c1, p0)
                       else if fromhex_fails (camid ap) then Some (c1, p0)
                       else
                         (let p1 = send_position_requests (camid ap) p0
                          in case get_current_position ap c1 of
                               None \<Rightarrow> Some (c1, p1)
                             | Some cpos \<Rightarrow>
                                 do {
                                   plan \<leftarrow> shortest_rotation (localPan p1) (pan tg) (Some ap) settings;
                                   (case plan of
                                      None \<Rightarrow> Some (c1, p1)
                                    | Some (distance, dir) \<Rightarrow>
                                        Some (c1,
                                          p1\<lparr>events := events p1 @
                                             [MoveSegment
                                                \<lparr>cPan = localPan p1, cTilt = tilt cpos / 10,
                                                 cRoll = roll cpos / 10, cZoom = zoom cpos,
                                                 tgtPan = localPan p1 + distance,
                                                 tgtTilt = tilt tg, tgtRoll = roll tg,
                                                 tgtZoom = zoom tg,
                                                 speed = preset_transition_speed gs,
                                                 seg_direction = dir\<rparr>]\<rparr>))
                                 }))))"


section \<open>Runs and example inputs\<close>

text \<open>
  \<open>n\<close> repeat ticks of an axis, each followed by a run of the predictor, under the same
  settings.
\<close>

fun repeat_cycles ::
  "nat \<Rightarrow> global_settings \<Rightarrow> axis \<Rightarrow> apcr \<Rightarrow> controls_state \<Rightarrow> error + controls_state" where
  "repeat_cycles 0 gs ax ap s = Inr s"
| "repeat_cycles (Suc n) gs ax ap s =
     (case repeat_command ax ap (Some gs) s of
        Inl e \<Rightarrow> Inl e
      | Inr s' \<Rightarrow> repeat_cycles n gs ax ap (snd (virtual_wall_predictor gs ap ax s')))"

text \<open>
  A device with the pan wall from 100 to 200 and no adaptive breakpoints of its own,
  settings with every feature off, and the state in which pan moves in positive direction
  at 100 percent with its repeat timer pending.
\<close>

definition example_apcr :: apcr where
  "example_apcr =
     \<lparr>camid = 1, virtualwallstart_pan = Some 100, virtualwallend_pan = Some 200,
      virtualwallstart_tilt = None, virtualwallend_tilt = None,
      adaptive_speed_map = (\<lambda>_. None)\<rparr>"

definition example_settings :: global_settings where
  "example_settings =
     \<lparr>virtualwallpreset = False, virtualwall = False, adaptive_speed = False,
      preset_transition_speed = 50\<rparr>"

definition example_moving_state :: controls_state where
  "example_moving_state =
     initial_controls_state
       \<lparr>movement_state := (movement_state initial_controls_state)
          (Pan := \<lparr>active = True, direction = Some Positive, percentage = 100,
                   control_type = Some AxisControl, original_percentage = None,
                   timer = Some 0, idle_timer = None\<rparr>),
        pending := [(0, RepeatCallback Pan example_apcr (Some example_settings))],
        next_timer := 1\<rparr>"

section \<open>Properties of the preset planner\<close>

lemma wall_order_sorted: "fst (wall_order x y) \<le> snd (wall_order x y)"
  by (simp add: wall_order_def)

lemma inWall_interval:
  "inWall angle (Some w1) (Some w2) =
     (min (native_to_normalized w1) (native_to_normalized w2) \<le> native_to_normalized angle \<and>
      native_to_normalized angle \<le> max (native_to_normalized w1) (native_to_normalized w2))"
  by (auto simp: inWall_def wall_order_def wall_contains_def)

text \<open>
  C10. The planner's membership test does not depend on the order of the two bounds, and it
  holds exactly when the normalised angle lies between the smaller and the larger normalised
  bound. The bounds are sorted before the test, so its condition
  \<^verbatim>\<open>wall_start <= wall_end\<close> is always true and the wrap-around branch is never taken:
  bounds 350 and 10 give the interval from 10 to 350, which contains 180 and contains neither
  0 nor 355.
\<close>

theorem inWall_symmetric_sorted_interval:
  "inWall angle (Some w1) (Some w2) = inWall angle (Some w2) (Some w1) \<and>
   inWall angle (Some w1) (Some w2) =
     (min (native_to_normalized w1) (native_to_normalized w2) \<le> native_to_normalized angle \<and>
      native_to_normalized angle \<le> max (native_to_normalized w1) (native_to_normalized w2)) \<and>
   fst (wall_order (native_to_normalized w1) (native_to_normalized w2))
     \<le> snd (wall_order (native_to_normalized w1) (native_to_normalized w2)) \<and>
   inWall 180 (Some 350) (Some 10) \<and>
   \<not> inWall 0 (Some 350) (Some 10) \<and>
   \<not> inWall 355 (Some 350) (Some 10)"
proof -
  have sym: "inWall angle (Some w1) (Some w2) = inWall angle (Some w2) (Some w1)"
    unfolding inWall_interval by auto
  have ex: "inWall 180 (Some 350) (Some 10) \<and> \<not> inWall 0 (Some 350) (Some 10) \<and>
            \<not> inWall 355 (Some 350) (Some 10)"
    unfolding inWall_interval by (simp add: native_to_normalized_def fmod_def)
  show ?thesis
    using sym ex inWall_interval [of angle w1 w2] wall_order_sorted by blast
qed

text \<open>
  C3, as the claim states it: the exit point for current pan 150 and a wall from 100 to 200
  would be 199 or 101. The planner's exit point is neither.
\<close>

theorem wall_exit_not_199_or_101:
  "fst (wall_exit (norm360 (to_deg 150)) (norm360 (to_deg 100)) (norm360 (to_deg 200)))
     \<notin> {199, 101}"
  by (simp add: wall_exit_def is_at_lower_half_def norm360_def to_deg_def fmod_def Let_def)

text \<open>
  C3, amended. With the preset wall enabled and bounds 100 and 200, current pan 150 and
  target 250: both bounds are 50 degrees away and the tie goes to the upper one, so the exit
  point is 201, one degree beyond the upper bound and outside the wall, reached by a
  counter-clockwise rotation of 51; the rest of the way from 201 to 250 is 49 in the same
  direction, and the planner returns the sum 100 with direction 1.
\<close>

theorem shortest_rotation_exit_150_to_250:
  "wall_exit (norm360 (to_deg 150)) (norm360 (to_deg 100)) (norm360 (to_deg 200)) = (201, 1, 51) \<and>
   remaining_dist 201 1 (norm360 (to_deg 250)) = 49 \<and>
   shortest_rotation 150 250
     (Some (ap\<lparr>virtualwallstart_pan := Some 100, virtualwallend_pan := Some 200\<rparr>))
     (Some (gs\<lparr>virtualwallpreset := True\<rparr>)) = Some (Some (51 + 49, 1))"
proof -
  have e: "wall_exit (norm360 (to_deg 150)) (norm360 (to_deg 100)) (norm360 (to_deg 200))
             = (201, 1, 51)"
    by (simp add: wall_exit_def is_at_lower_half_def norm360_def to_deg_def fmod_def Let_def)
  have r: "remaining_dist 201 1 (norm360 (to_deg 250)) = 49"
    by (simp add: remaining_dist_def norm360_def to_deg_def fmod_def)
  have b: "\<not> inWall (to_deg 250) (Some (to_deg 100)) (Some (to_deg 200))"
    unfolding inWall_interval by (simp add: native_to_normalized_def to_deg_def fmod_def)
  have a: "inWall (to_deg 150) (Some (to_deg 100)) (Some (to_deg 200))"
    unfolding inWall_interval by (simp add: native_to_normalized_def to_deg_def fmod_def)
  have "shortest_rotation 150 250
     (Some (ap\<lparr>virtualwallstart_pan := Some 100, virtualwallend_pan := Some 200\<rparr>))
     (Some (gs\<lparr>virtualwallpreset := True\<rparr>)) = Some (Some (51 + 49, 1))"
    using a b e r by (simp add: shortest_rotation_def Let_def)
  with e r show ?thesis by blast
qed

section \<open>Properties of the adaptive speed interpolator\<close>

lemma interpolate_scan_range:
  "interpolate_scan m z = Inr (Some v) \<Longrightarrow> 1 \<le> v \<and> v \<le> 100"
  by (induction m z rule: interpolate_scan.induct) (auto split: if_splits)

lemma interpolate_scan_bracket:
  "sorted_wrt (<) (map fst m) \<Longrightarrow> 2 \<le> length m \<Longrightarrow> real (fst (hd m)) \<le> z
     \<Longrightarrow> z \<le> real (fst (last m)) \<Longrightarrow> \<exists>v. interpolate_scan m z = Inr (Some v)"
proof (induction m z rule: interpolate_scan.induct)
  case (1 lower_zoom lower_speed upper_zoom upper_speed rest z)
  show ?case
  proof (cases "real lower_zoom \<le> z \<and> z \<le> real upper_zoom")
    case True
    moreover from "1.prems"(1) have "upper_zoom \<noteq> lower_zoom" by simp
    ultimately show ?thesis by simp
  next
    case False
    with "1.prems"(3) have gt: "real upper_zoom < z" by simp
    have ne: "rest \<noteq> []"
    proof
      assume "rest = []"
      with "1.prems"(4) gt show False by simp
    qed
    have "\<exists>v. interpolate_scan ((upper_zoom, upper_speed) # rest) z = Inr (Some v)"
    proof (rule "1.IH")
      show "\<not> (real lower_zoom \<le> z \<and> z \<le> real upper_zoom)" by (rule False)
      show "sorted_wrt (<) (map fst ((upper_zoom, upper_speed) # rest))" using "1.prems"(1) by simp
      show "2 \<le> length ((upper_zoom, upper_speed) # rest)" using ne by (cases rest) simp_all
      show "real (fst (hd ((upper_zoom, upper_speed) # rest))) \<le> z" using gt by simp
      show "z \<le> real (fst (last ((upper_zoom, upper_speed) # rest)))" using "1.prems"(4) by simp
    qed
    with False show ?thesis by auto
  qed
qed simp_all

lemma zoom_speed_mapping_shape:
  "sorted_wrt (<) (map fst (zoom_speed_mapping a)) \<and> 2 \<le> length (zoom_speed_mapping a)
   \<and> fst (hd (zoom_speed_mapping a)) = 0 \<and> fst (last (zoom_speed_mapping a)) = 100"
  by (cases "adaptive_speed_map a 0"; cases "adaptive_speed_map a 10"; cases "adaptive_speed_map a 25";
      cases "adaptive_speed_map a 50"; cases "adaptive_speed_map a 75"; cases "adaptive_speed_map a 100")
     (simp_all add: zoom_speed_mapping_def optional_zoom_levels_def List.map_filter_def default_mapping_def)

lemma calculate_adaptive_speed_enabled:
  assumes "adaptive_speed gs"
  shows "\<exists>v. 1 \<le> v \<and> v \<le> 100 \<and>
           (\<forall>base. calculate_adaptive_speed z base (Some gs) (Some a) = Inr v)"
proof -
  let ?m = "zoom_speed_mapping a" and ?z = "max 0 (min 100 z)"
  have shape: "sorted_wrt (<) (map fst ?m)" "2 \<le> length ?m" "fst (hd ?m) = 0" "fst (last ?m) = 100"
    using zoom_speed_mapping_shape [of a] by simp_all
  have "\<exists>v. interpolate_scan ?m ?z = Inr (Some v)"
    by (rule interpolate_scan_bracket) (use shape in simp_all)
  then obtain v where v: "interpolate_scan ?m ?z = Inr (Some v)" ..
  from interpolate_scan_range [OF v] v shape(2) assms show ?thesis
    by (simp add: calculate_adaptive_speed_def adaptive_from_mapping_def)
qed

lemma calculate_adaptive_speed_total:
  "\<exists>v. calculate_adaptive_speed z base settings ap = Inr v"
proof (cases settings)
  case None
  then show ?thesis by (simp add: calculate_adaptive_speed_def)
next
  case (Some gs)
  show ?thesis
  proof (cases "adaptive_speed gs")
    case True
    show ?thesis
    proof (cases ap)
      case None
      with Some show ?thesis by (simp add: calculate_adaptive_speed_def)
    next
      case (Some a)
      with calculate_adaptive_speed_enabled [OF True, of z a] \<open>settings = Some gs\<close>
      show ?thesis by blast
    qed
  next
    case False
    with Some show ?thesis by (simp add: calculate_adaptive_speed_def)
  qed
qed





section \<open>Properties of the wall guard\<close>





text \<open>
  C2. In the initial state of the module the tracker slots hold \<^verbatim>\<open>None\<close>. With the
  pan wall from 100 to 200 enabled, the position 150 inside it and the delta 5, the guard
  neither allows nor blocks: the lookup \<^verbatim>\<open>virtual_wall_tracker.get(axis, {})\<close>
  returns the stored \<^verbatim>\<open>None\<close>, and the test for the entry direction raises.
\<close>

theorem update_virtual_wall_state_initial_tracker_raises:
  "update_virtual_wall_state Pan 150 5
     (ap\<lparr>virtualwallstart_pan := Some 100, virtualwallend_pan := Some 200\<rparr>) True 0
     initial_controls_state = Inl TypeError"
  by (simp add: update_virtual_wall_state_def initial_controls_state_def pos_in_wall_def
      use_absolute_def controls_inWall_def norm360_def fmod_def Let_def)

text \<open>
  Where the tracker slot holds a dictionary, or the key is missing, the guard does what C2
  says for a position inside the wall and a delta that is not zero: with the entry
  direction taken from the tracker, or from the sign of the delta when the tracker has
  none, the command passes exactly when its direction is the opposite one, and otherwise it
  is blocked with the correction towards the exit target.
\<close>

lemma update_virtual_wall_state_inside:
  assumes bounds: "(if ax = Pan then (virtualwallstart_pan ap, virtualwallend_pan ap)
                    else (virtualwallstart_tilt ap, virtualwallend_tilt ap)) = (Some ws, Some we)"
    and tr: "(case virtual_wall_tracker s ax of None \<Rightarrow> Some empty_tracker | Some v \<Rightarrow> v) = Some t"
    and inside: "pos_in_wall ws we margin current_pos"
    and nz: "command_delta \<noteq> 0"
  shows "\<exists>s'. update_virtual_wall_state ax current_pos command_delta ap True margin s =
           Inr ((sign_of command_delta
                   \<noteq> - (case entry_direction t of None \<Rightarrow> sign_of command_delta | Some d \<Rightarrow> d),
                 sign_of command_delta
                   \<noteq> - (case entry_direction t of None \<Rightarrow> sign_of command_delta | Some d \<Rightarrow> d),
                 if sign_of command_delta
                   = - (case entry_direction t of None \<Rightarrow> sign_of command_delta | Some d \<Rightarrow> d)
                 then 0
                 else correction_delta_for
                        (allowed_exit_target ws we
                           (case entry_direction t of None \<Rightarrow> sign_of command_delta | Some d \<Rightarrow> d))
                        current_pos), s')"
proof (cases "entry_direction t")
  case None
  with bounds tr inside nz show ?thesis
    by (simp add: update_virtual_wall_state_def Let_def sign_of_def)
next
  case (Some d)
  with bounds tr inside nz show ?thesis
    by (simp add: update_virtual_wall_state_def Let_def sign_of_def)
qed

section \<open>Properties of the motion state machine\<close>

lemma map_of_fresh_handle:
  assumes "\<forall>e\<in>set xs. fst e < (n::nat)"
  shows "map_of (filter P xs @ [(n, cb)]) n = Some cb"
proof -
  have "n \<notin> fst ` set (filter P xs)"
  proof
    assume "n \<in> fst ` set (filter P xs)"
    then obtain e where "e \<in> set xs" "fst e = n" by auto
    with assms show False by auto
  qed
  then have "map_of (filter P xs) n = None" by (simp add: map_of_eq_None_iff)
  then show ?thesis by (simp add: map_add_def)
qed

lemma hex_digits_byte: "cam < 256 \<Longrightarrow> hex_digits cam \<le> 2"
proof -
  assume c: "cam < 256"
  show ?thesis
  proof (cases "cam < 16")
    case True
    then show ?thesis by (subst hex_digits.simps) simp
  next
    case False
    from c have "cam div 16 < 16" by simp
    then have "hex_digits (cam div 16) = 1" by (subst hex_digits.simps) simp
    with False show ?thesis by (subst hex_digits.simps) simp
  qed
qed

lemma fromhex_byte: "cam < 256 \<Longrightarrow> \<not> fromhex_fails cam"
  using hex_digits_byte [of cam] by (simp add: fromhex_fails_def max_def)

lemma stop_movement_inactive:
  "\<not> active (movement_state s ax) \<Longrightarrow> stop_movement ax ap s = Inr s"
  by (simp add: stop_movement_def)

lemma stop_movement_raises:
  "active (movement_state s ax) \<Longrightarrow> fromhex_fails (camid ap)
     \<Longrightarrow> stop_movement ax ap s = Inl ValueError"
  by (simp add: stop_movement_def)

lemma stop_movement_active:
  assumes "active (movement_state s ax)" and "\<not> fromhex_fails (camid ap)"
  shows "stop_movement ax ap s =
     Inr (s\<lparr>sent := sent s @ [get_idle_packet ax (camid ap)],
       pending := filter (\<lambda>e. Some (fst e) \<noteq> timer (movement_state s ax)
                          \<and> Some (fst e) \<noteq> idle_timer (movement_state s ax)) (pending s)
                  @ [(next_timer s, IdleCallback ax ap)],
       next_timer := Suc (next_timer s),
       movement_state := (movement_state s)
         (ax := (movement_state s ax)\<lparr>active := False, direction := None, percentage := 0,
                   control_type := None, timer := None, idle_timer := Some (next_timer s)\<rparr>)\<rparr>)"
proof -
  have f: "filter (\<lambda>e. Some (fst e) \<noteq> timer (movement_state s ax)
                          \<and> Some (fst e) \<noteq> idle_timer (movement_state s ax)) (pending s)
        = (case idle_timer (movement_state s ax) of
             None \<Rightarrow> (case timer (movement_state s ax) of None \<Rightarrow> pending s
                      | Some h \<Rightarrow> filter (\<lambda>e. fst e \<noteq> h) (pending s))
           | Some h' \<Rightarrow> filter (\<lambda>e. fst e \<noteq> h')
                (case timer (movement_state s ax) of None \<Rightarrow> pending s
                 | Some h \<Rightarrow> filter (\<lambda>e. fst e \<noteq> h) (pending s)))"
    by (auto split: option.splits intro: filter_cong)
  show ?thesis
    using assms unfolding f
    by (simp add: stop_movement_def Let_def send_apcr_command_def cancel_timer_def
        start_timer_def set_axis_state_def split: option.splits)
qed

text \<open>
  C8. For a device number that fills one byte and an active axis whose pending timers carry
  handles that were handed out before, and whose pending idle-grace callbacks are at most
  the one its state refers to: the first stop sends one idle packet, marks the axis
  inactive, clears the repeat timer, removes the old repeat and idle-grace timers from the
  pending ones and arms one new idle-grace timer; the second stop changes nothing and sends
  nothing. When the idle-grace timer then fires it sends one more idle packet, and no
  idle-grace callback of the axis is left.
\<close>

theorem stop_movement_twice:
  assumes act: "active (movement_state s ax)"
    and cam: "camid ap < 256"
    and fresh: "\<forall>e\<in>set (pending s). fst e < next_timer s"
    and one_idle: "\<forall>e\<in>set (pending_idle ax s). idle_timer (movement_state s ax) = Some (fst e)"
  shows "\<exists>s1. stop_movement ax ap s = Inr s1 \<and>
     sent s1 = sent s @ [get_idle_packet ax (camid ap)] \<and>
     \<not> active (movement_state s1 ax) \<and>
     timer (movement_state s1 ax) = None \<and>
     idle_timer (movement_state s1 ax) = Some (next_timer s) \<and>
     pending s1 =
       filter (\<lambda>e. Some (fst e) \<noteq> timer (movement_state s ax)
                  \<and> Some (fst e) \<noteq> idle_timer (movement_state s ax)) (pending s)
       @ [(next_timer s, IdleCallback ax ap)] \<and>
     pending_idle ax s1 = [(next_timer s, IdleCallback ax ap)] \<and>
     stop_movement ax ap s1 = Inr s1 \<and>
     (\<exists>s3. fire_timer (next_timer s) s1 = Inr s3 \<and>
        sent s3 = sent s @ [get_idle_packet ax (camid ap), get_idle_packet ax (camid ap)] \<and>
        pending_idle ax s3 = [])"
proof -
  let ?Q = "\<lambda>e. Some (fst e) \<noteq> timer (movement_state s ax)
                  \<and> Some (fst e) \<noteq> idle_timer (movement_state s ax)"
  let ?I = "\<lambda>e. case snd e of IdleCallback a ap \<Rightarrow> a = ax | RepeatCallback a ap g \<Rightarrow> False"
  have ok: "\<not> fromhex_fails (camid ap)" using cam by (rule fromhex_byte)
  define s1 where "s1 =
     s\<lparr>sent := sent s @ [get_idle_packet ax (camid ap)],
       pending := filter ?Q (pending s) @ [(next_timer s, IdleCallback ax ap)],
       next_timer := Suc (next_timer s),
       movement_state := (movement_state s)
         (ax := (movement_state s ax)\<lparr>active := False, direction := None, percentage := 0,
                   control_type := None, timer := None, idle_timer := Some (next_timer s)\<rparr>)\<rparr>"
  have first: "stop_movement ax ap s = Inr s1"
    unfolding s1_def by (rule stop_movement_active [OF act ok])
  have sent1: "sent s1 = sent s @ [get_idle_packet ax (camid ap)]"
    and inact: "\<not> active (movement_state s1 ax)"
    and tim: "timer (movement_state s1 ax) = None"
    and idl: "idle_timer (movement_state s1 ax) = Some (next_timer s)"
    and pend: "pending s1 = filter ?Q (pending s) @ [(next_timer s, IdleCallback ax ap)]"
    unfolding s1_def by simp_all
  have old_gone: "filter ?I (filter ?Q (pending s)) = []"
  proof -
    have "\<not> (?I e \<and> ?Q e)" if "e \<in> set (pending s)" for e
    proof
      assume h: "?I e \<and> ?Q e"
      with that have "e \<in> set (pending_idle ax s)" by (simp add: pending_idle_def)
      with one_idle have "idle_timer (movement_state s ax) = Some (fst e)" by blast
      with h show False by simp
    qed
    then show ?thesis by (auto simp: filter_empty_conv)
  qed
  have pidle: "pending_idle ax s1 = [(next_timer s, IdleCallback ax ap)]"
    unfolding pending_idle_def pend using old_gone by simp
  have twice: "stop_movement ax ap s1 = Inr s1"
    using inact by (rule stop_movement_inactive)
  have look: "map_of (pending s1) (next_timer s) = Some (IdleCallback ax ap)"
    unfolding pend using fresh by (rule map_of_fresh_handle)
  let ?c = "cancel_timer (next_timer s) s1"
  let ?s3 = "send_apcr_command (get_idle_packet ax (camid ap)) ?c"
  have inact': "\<not> active (movement_state ?c ax)"
    using inact by (simp add: cancel_timer_def)
  have fire: "fire_timer (next_timer s) s1 = Inr ?s3"
    using look inact' ok by (simp add: fire_timer_def send_idle_if_still_inactive_def)
  have sent3: "sent ?s3 = sent s @ [get_idle_packet ax (camid ap), get_idle_packet ax (camid ap)]"
    using sent1 by (simp add: send_apcr_command_def cancel_timer_def)
  have pend3: "pending ?s3 = filter (\<lambda>e. fst e \<noteq> next_timer s) (pending s1)"
    by (simp add: send_apcr_command_def cancel_timer_def)
  have "filter ?I (pending ?s3) = filter (\<lambda>e. fst e \<noteq> next_timer s) (filter ?I (pending s1))"
    unfolding pend3 by (simp add: conj_commute)
  also have "filter ?I (pending s1) = [(next_timer s, IdleCallback ax ap)]"
    using pidle by (simp add: pending_idle_def)
  finally have pidle3: "pending_idle ax ?s3 = []" by (simp add: pending_idle_def)
  from fire sent3 pidle3
  have last: "\<exists>s3. fire_timer (next_timer s) s1 = Inr s3 \<and>
        sent s3 = sent s @ [get_idle_packet ax (camid ap), get_idle_packet ax (camid ap)] \<and>
        pending_idle ax s3 = []"
    by blast
  from first sent1 inact tim idl pend pidle twice last show ?thesis by blast
qed

theorem stop_movement_twice_witness:
  "active (movement_state example_moving_state Pan) \<and> camid example_apcr < 256 \<and>
   map fst (pending example_moving_state) = [0] \<and> next_timer example_moving_state = 1 \<and>
   pending_idle Pan example_moving_state = [] \<and>
   (\<exists>s1. stop_movement Pan example_apcr example_moving_state = Inr s1 \<and>
      sent s1 = [IdlePacket 1 Pan] \<and>
      pending s1 = [(1, IdleCallback Pan example_apcr)] \<and>
      stop_movement Pan example_apcr s1 = Inr s1)"
proof -
  have a: "active (movement_state example_moving_state Pan)"
    by (simp add: example_moving_state_def)
  have c: "camid example_apcr < 256" by (simp add: example_apcr_def)
  have f: "\<forall>e\<in>set (pending example_moving_state). fst e < next_timer example_moving_state"
    by (simp add: example_moving_state_def)
  have i: "\<forall>e\<in>set (pending_idle Pan example_moving_state).
       idle_timer (movement_state example_moving_state Pan) = Some (fst e)"
    by (simp add: example_moving_state_def pending_idle_def)
  have e: "map fst (pending example_moving_state) = [0]" "next_timer example_moving_state = 1"
    "pending_idle Pan example_moving_state = []" "sent example_moving_state = []"
    "timer (movement_state example_moving_state Pan) = Some 0"
    "idle_timer (movement_state example_moving_state Pan) = None"
    "pending example_moving_state = [(0, RepeatCallback Pan example_apcr (Some example_settings))]"
    "camid example_apcr = 1"
    by (simp_all add: example_moving_state_def initial_controls_state_def pending_idle_def
        example_apcr_def)
  from stop_movement_twice [OF a c f i] a c e show ?thesis
    by (auto simp add: get_idle_packet_def)
qed

lemma repeat_percentage_total: "\<exists>pct. repeat_percentage ax ap settings s = Inr pct"
  using calculate_adaptive_speed_total
  by (simp add: repeat_percentage_def Let_def split: option.splits)

lemma repeat_command_blocked:
  assumes "active (movement_state s ax)" and "predicted_block s"
    and "repeat_percentage ax ap settings s = Inr pct"
  shows "repeat_command ax ap settings s =
           Inr (s\<lparr>cumulative_delta :=
                    cumulative_delta s + repeat_delta ax (direction (movement_state s ax)) pct\<rparr>)"
  using assms by (simp add: repeat_command_def Let_def update_cumulative_delta_def)

text \<open>
  C5. When a repeat tick runs on an active axis while the predicted-block flag is set, it
  adds the delta of the tick to the accumulator and returns: the log of sent packets, the
  pending timers and the axis states are as before, so no command was sent and no timer was
  armed. When the tick is the firing of the repeat timer, that timer has left the pending
  ones and nothing has replaced it.
\<close>

theorem repeat_command_predicted_block_stops:
  assumes act: "active (movement_state s ax)" and blk: "predicted_block s"
  shows "(\<exists>pct s'. repeat_percentage ax ap settings s = Inr pct \<and>
            repeat_command ax ap settings s = Inr s' \<and>
            cumulative_delta s' =
              cumulative_delta s + repeat_delta ax (direction (movement_state s ax)) pct \<and>
            sent s' = sent s \<and> pending s' = pending s \<and> next_timer s' = next_timer s \<and>
            movement_state s' = movement_state s \<and> predicted_block s') \<and>
         (map_of (pending s) h = Some (RepeatCallback ax ap settings) \<longrightarrow>
            (\<exists>s'. fire_timer h s = Inr s' \<and> sent s' = sent s \<and>
                  pending s' = filter (\<lambda>e. fst e \<noteq> h) (pending s) \<and>
                  movement_state s' = movement_state s))"
proof -
  obtain pct where pct: "repeat_percentage ax ap settings s = Inr pct"
    using repeat_percentage_total by blast
  have first: "\<exists>pct s'. repeat_percentage ax ap settings s = Inr pct \<and>
            repeat_command ax ap settings s = Inr s' \<and>
            cumulative_delta s' =
              cumulative_delta s + repeat_delta ax (direction (movement_state s ax)) pct \<and>
            sent s' = sent s \<and> pending s' = pending s \<and> next_timer s' = next_timer s \<and>
            movement_state s' = movement_state s \<and> predicted_block s'"
    using repeat_command_blocked [OF act blk pct] pct blk by simp
  have second: "\<exists>s'. fire_timer h s = Inr s' \<and> sent s' = sent s \<and>
                  pending s' = filter (\<lambda>e. fst e \<noteq> h) (pending s) \<and>
                  movement_state s' = movement_state s"
    if look: "map_of (pending s) h = Some (RepeatCallback ax ap settings)"
  proof -
    let ?c = "cancel_timer h s"
    have act': "active (movement_state ?c ax)" and blk': "predicted_block ?c"
      using act blk by (simp_all add: cancel_timer_def)
    obtain pct' where pct': "repeat_percentage ax ap settings ?c = Inr pct'"
      using repeat_percentage_total by blast
    have "fire_timer h s = repeat_command ax ap settings ?c"
      using look by (simp add: fire_timer_def)
    with repeat_command_blocked [OF act' blk' pct'] show ?thesis
      by (simp add: cancel_timer_def)
  qed
  from first second show ?thesis by blast
qed

theorem repeat_command_predicted_block_stops_witness:
  "active (movement_state (example_moving_state\<lparr>predicted_block := True\<rparr>) Pan) \<and>
   predicted_block (example_moving_state\<lparr>predicted_block := True\<rparr>) \<and>
   map_of (pending (example_moving_state\<lparr>predicted_block := True\<rparr>)) 0
     = Some (RepeatCallback Pan example_apcr (Some example_settings)) \<and>
   (\<exists>s'. fire_timer 0 (example_moving_state\<lparr>predicted_block := True\<rparr>) = Inr s' \<and>
          sent s' = [] \<and> pending s' = [])"
proof -
  let ?s = "example_moving_state\<lparr>predicted_block := True\<rparr>"
  have a: "active (movement_state ?s Pan)" by (simp add: example_moving_state_def)
  have b: "predicted_block ?s" by simp
  have l: "map_of (pending ?s) 0 = Some (RepeatCallback Pan example_apcr (Some example_settings))"
    by (simp add: example_moving_state_def)
  have e: "sent ?s = []" "pending ?s = [(0, RepeatCallback Pan example_apcr (Some example_settings))]"
    by (simp_all add: example_moving_state_def initial_controls_state_def)
  from repeat_command_predicted_block_stops
         [OF a b, of example_apcr "Some example_settings" 0] l a b e
  show ?thesis by auto
qed

section \<open>Properties of the cumulative delta\<close>

lemma send_movement_packet_frame:
  "\<exists>ps. send_movement_packet a d p ap c g s = s\<lparr>sent := sent s @ ps\<rparr>"
proof -
  have id: "s = s\<lparr>sent := sent s @ []\<rparr>" by simp
  have one: "send_apcr_command q s = s\<lparr>sent := sent s @ [q]\<rparr>" for q
    by (simp add: send_apcr_command_def)
  show ?thesis
    unfolding send_movement_packet_def Let_def
    by (auto split: option.splits intro: exI [of _ "[]"] simp: one)
qed

lemma repeat_command_step:
  assumes act: "active (movement_state s ax)" and off: "\<not> adaptive_speed gs"
  shows "\<exists>s'. repeat_command ax ap (Some gs) s = Inr s' \<and>
           active (movement_state s' ax) \<and>
           direction (movement_state s' ax) = direction (movement_state s ax) \<and>
           percentage (movement_state s' ax) = percentage (movement_state s ax) \<and>
           cumulative_delta s' =
             cumulative_delta s
               + repeat_delta ax (direction (movement_state s ax)) (percentage (movement_state s ax))"
proof -
  let ?st = "movement_state s ax"
  let ?s1 = "update_cumulative_delta (repeat_delta ax (direction ?st) (percentage ?st)) s"
  have pct: "repeat_percentage ax ap (Some gs) s = Inr (percentage ?st)"
    using off by (simp add: repeat_percentage_def Let_def)
  obtain ps where ps: "send_movement_packet ax (direction ?st) (percentage ?st) ap
        (case control_type ?st of None \<Rightarrow> AxisControl | Some k \<Rightarrow> k) (Some gs) ?s1
      = ?s1\<lparr>sent := sent ?s1 @ ps\<rparr>"
    using send_movement_packet_frame by blast
  show ?thesis
  proof (cases "predicted_block s")
    case True
    with act pct show ?thesis
      by (simp add: repeat_command_def Let_def update_cumulative_delta_def)
  next
    case False
    with act pct ps show ?thesis
      by (simp add: repeat_command_def Let_def update_cumulative_delta_def start_timer_def
          set_axis_state_def)
  qed
qed

lemma virtual_wall_predictor_state: "snd (virtual_wall_predictor gs ap ax s) = s"
  by (simp add: virtual_wall_predictor_def split: option.splits)

lemma repeat_cycles_accumulate:
  assumes "active (movement_state s ax)" and "\<not> adaptive_speed gs"
  shows "\<exists>s'. repeat_cycles n gs ax ap s = Inr s' \<and>
           cumulative_delta s' =
             cumulative_delta s
               + real n * repeat_delta ax (direction (movement_state s ax))
                            (percentage (movement_state s ax))"
  using assms
proof (induction n arbitrary: s)
  case 0
  then show ?case by simp
next
  case (Suc n)
  from repeat_command_step [OF Suc.prems, of ap]
  obtain s1 where s1: "repeat_command ax ap (Some gs) s = Inr s1"
    and a1: "active (movement_state s1 ax)"
    and d1: "direction (movement_state s1 ax) = direction (movement_state s ax)"
    and p1: "percentage (movement_state s1 ax) = percentage (movement_state s ax)"
    and c1: "cumulative_delta s1 =
             cumulative_delta s
               + repeat_delta ax (direction (movement_state s ax)) (percentage (movement_state s ax))"
    by blast
  from Suc.IH [OF a1 Suc.prems(2)]
  obtain s' where s': "repeat_cycles n gs ax ap s1 = Inr s'"
    and c': "cumulative_delta s' =
             cumulative_delta s1
               + real n * repeat_delta ax (direction (movement_state s1 ax))
                            (percentage (movement_state s1 ax))"
    by blast
  have "repeat_cycles (Suc n) gs ax ap s = Inr s'"
    using s1 s' by (simp add: virtual_wall_predictor_state)
  moreover have "cumulative_delta s' =
             cumulative_delta s
               + real (Suc n) * repeat_delta ax (direction (movement_state s ax))
                            (percentage (movement_state s ax))"
    using c' c1 d1 p1 by (simp add: algebra_simps)
  ultimately show ?case by blast
qed

lemma repeat_delta_pan_full: "repeat_delta Pan (Some Positive) 100 = 90"
  by (simp add: repeat_delta_def speed_val_def command_delta_of_def py_int_def)

text \<open>
  C9. Pan moves at full speed and the device has a cached position. The predictor, once
  started, reaches its call of the guard, which raises before the guard runs: the run ends
  without a completed cycle and without a write to the accumulator, and nothing else calls
  the reset. One repeat tick leaves its delta of 90 in the accumulator, and three ticks,
  each followed by a run of the predictor, leave 270.
\<close>

theorem cumulative_delta_never_reset:
  "virtual_wall_predictor example_settings example_apcr Pan
     (example_moving_state\<lparr>current_position := (\<lambda>_. Some \<lparr>pan = 0, tilt = 0, roll = 0, zoom = 1\<rparr>)\<rparr>)
     = (TypeError,
        example_moving_state\<lparr>current_position := (\<lambda>_. Some \<lparr>pan = 0, tilt = 0, roll = 0, zoom = 1\<rparr>)\<rparr>) \<and>
   map_sum id cumulative_delta
     (repeat_cycles 1 example_settings Pan example_apcr
        (example_moving_state\<lparr>current_position := (\<lambda>_. Some \<lparr>pan = 0, tilt = 0, roll = 0, zoom = 1\<rparr>)\<rparr>))
     = Inr 90 \<and>
   map_sum id cumulative_delta
     (repeat_cycles 3 example_settings Pan example_apcr
        (example_moving_state\<lparr>current_position := (\<lambda>_. Some \<lparr>pan = 0, tilt = 0, roll = 0, zoom = 1\<rparr>)\<rparr>))
     = Inr 270"
proof -
  let ?s = "example_moving_state\<lparr>current_position :=
              (\<lambda>_. Some \<lparr>pan = 0, tilt = 0, roll = 0, zoom = 1\<rparr>)\<rparr>"
  have p: "virtual_wall_predictor example_settings example_apcr Pan ?s = (TypeError, ?s)"
    by (simp add: virtual_wall_predictor_def get_current_position_def)
  have a: "active (movement_state ?s Pan)"
    by (simp add: example_moving_state_def)
  have o: "\<not> adaptive_speed example_settings" by (simp add: example_settings_def)
  have v: "cumulative_delta ?s = 0" "direction (movement_state ?s Pan) = Some Positive"
    "percentage (movement_state ?s Pan) = 100"
    by (simp_all add: example_moving_state_def initial_controls_state_def)
  have run: "map_sum id cumulative_delta (repeat_cycles n example_settings Pan example_apcr ?s)
               = Inr (real n * 90)" for n
    using repeat_cycles_accumulate [OF a o, of n example_apcr] v
    by (auto simp add: repeat_delta_pan_full)
  from p run [of 1] run [of 3] show ?thesis by simp
qed

section \<open>Properties of route choice and recall\<close>

lemmas planner_eval =
  to_deg_def norm360_def fmod_def inWall_def wall_order_def wall_contains_def
  native_to_normalized_def cw_rotation_def ccw_rotation_def rotation_crosses_wall_def
  sample_arc_normalized_def while_up.simps while_down.simps Let_def

lemma crosses_50_250_wall_300_350:
  "rotation_crosses_wall 50 250 (- 1) (Some 300) (Some 350) = Some True"
  "rotation_crosses_wall 50 250 1 (Some 300) (Some 350) = Some False"
  by (simp_all add: planner_eval)

text \<open>
  C1. Current pan 50, target 250, wall from 300 to 350, preset wall enabled; neither end is
  inside the wall. The clockwise route (through 0) crosses the wall and the
  counter-clockwise route (200 degrees) does not. The planner answers with direction 1, the
  counter-clockwise one, and with the rotation -160, which is the clockwise rotation through
  the wall and not the 200 degrees of the route it chose.
\<close>

theorem shortest_rotation_one_route_blocked:
  "rotation_crosses_wall 50 250 (- 1) (Some 300) (Some 350) = Some True \<and>
   rotation_crosses_wall 50 250 1 (Some 300) (Some 350) = Some False \<and>
   shortest_rotation 50 250
     (Some (ap\<lparr>virtualwallstart_pan := Some 300, virtualwallend_pan := Some 350\<rparr>))
     (Some (gs\<lparr>virtualwallpreset := True\<rparr>)) = Some (Some (- 160, 1))"
proof -
  have b: "\<not> inWall 250 (Some 300) (Some 350)" and a: "\<not> inWall 50 (Some 300) (Some 350)"
    by (simp_all add: inWall_def wall_order_def wall_contains_def native_to_normalized_def fmod_def)
  have r: "ccw_rotation (norm360 50) (norm360 250) = - 160"
    by (simp add: ccw_rotation_def norm360_def fmod_def)
  have "shortest_rotation 50 250
     (Some (ap\<lparr>virtualwallstart_pan := Some 300, virtualwallend_pan := Some 350\<rparr>))
     (Some (gs\<lparr>virtualwallpreset := True\<rparr>)) = Some (Some (- 160, 1))"
    using a b r crosses_50_250_wall_300_350
    by (simp add: shortest_rotation_def to_deg_def Let_def)
  with crosses_50_250_wall_300_350 show ?thesis by blast
qed




section \<open>The planner and the recall return\<close>

text \<open>
  With a positive step each sampling loop ends, since the distance to its limit, counted in
  steps, goes down with every round. The planner samples with step 2, so it returns for
  every input, and so does the recall.
\<close>

lemma while_up_returns:
  assumes "0 < step"
  shows "\<exists>ps. while_up emit current limit step points = Some ps"
proof (induction "nat \<lceil>(limit - current) / step\<rceil>" arbitrary: current points rule: less_induct)
  case less
  show ?case
  proof (cases "current < limit")
    case False
    then show ?thesis by (subst while_up.simps) simp
  next
    case True
    let ?c = "min (current + step) limit"
    have pos: "0 < (limit - current) / step" using True assms by simp
    then have one: "1 \<le> \<lceil>(limit - current) / step\<rceil>" by (simp add: ceiling_le_iff less_ceiling_iff)
    have "\<lceil>(limit - ?c) / step\<rceil> < \<lceil>(limit - current) / step\<rceil>"
    proof (cases "current + step \<le> limit")
      case True
      then have "(limit - ?c) / step = (limit - current) / step - 1"
        using assms by (simp add: field_simps)
      then show ?thesis by simp
    next
      case False
      then have "?c = limit" by simp
      then have "\<lceil>(limit - ?c) / step\<rceil> = 0" by simp
      with one show ?thesis by linarith
    qed
    with one have "nat \<lceil>(limit - ?c) / step\<rceil> < nat \<lceil>(limit - current) / step\<rceil>"
      by linarith
    from less [OF this] obtain ps where
      "while_up emit ?c limit step (points @ [emit ?c]) = Some ps" by blast
    with True show ?thesis by (subst while_up.simps) simp
  qed
qed

lemma while_down_returns:
  assumes "0 < step"
  shows "\<exists>ps. while_down emit current limit step points = Some ps"
proof (induction "nat \<lceil>(current - limit) / step\<rceil>" arbitrary: current points rule: less_induct)
  case less
  show ?case
  proof (cases "current > limit")
    case False
    then show ?thesis by (subst while_down.simps) simp
  next
    case True
    let ?c = "max (current - step) limit"
    have pos: "0 < (current - limit) / step" using True assms by simp
    then have one: "1 \<le> \<lceil>(current - limit) / step\<rceil>" by (simp add: ceiling_le_iff less_ceiling_iff)
    have "\<lceil>(?c - limit) / step\<rceil> < \<lceil>(current - limit) / step\<rceil>"
    proof (cases "limit \<le> current - step")
      case True
      then have "(?c - limit) / step = (current - limit) / step - 1"
        using assms by (simp add: field_simps)
      then show ?thesis by simp
    next
      case False
      then have "?c = limit" by simp
      then have "\<lceil>(?c - limit) / step\<rceil> = 0" by simp
      with one show ?thesis by linarith
    qed
    with one have "nat \<lceil>(?c - limit) / step\<rceil> < nat \<lceil>(current - limit) / step\<rceil>"
      by linarith
    from less [OF this] obtain ps where
      "while_down emit ?c limit step (points @ [emit ?c]) = Some ps" by blast
    with True show ?thesis by (subst while_down.simps) simp
  qed
qed

lemma bind_returns:
  "\<exists>x. m = Some x \<Longrightarrow> (\<And>x. \<exists>y. f x = Some y) \<Longrightarrow> \<exists>y. Option.bind m f = Some y"
  by auto

lemma two_loops_up:
  "0 < step \<Longrightarrow> \<exists>ps. Option.bind (while_up f a l step p) (while_up g a' l' step) = Some ps"
  by (rule bind_returns) (rule while_up_returns, assumption)+

lemma two_loops_down:
  "0 < step \<Longrightarrow> \<exists>ps. Option.bind (while_down f a l step p) (while_down g a' l' step) = Some ps"
  by (rule bind_returns) (rule while_down_returns, assumption)+

lemma sample_arc_normalized_returns:
  assumes "0 < step"
  shows "\<exists>ps. sample_arc_normalized start_norm end_norm dir step = Some ps"
  unfolding sample_arc_normalized_def
proof (rule bind_returns)
  show "\<exists>x. (if dir = 1
          then if start_norm < end_norm
               then while_up (\<lambda>c. c) start_norm end_norm step [start_norm]
               else Option.bind (while_up (\<lambda>c. fmod c 360) start_norm 360 step [start_norm])
                      (while_up (\<lambda>c. c) 0 end_norm step)
          else if end_norm < start_norm
               then while_down (\<lambda>c. c) start_norm end_norm step [start_norm]
               else Option.bind (while_down (\<lambda>c. c) start_norm 0 step [start_norm])
                      (while_down (\<lambda>c. fmod c 360) 360 end_norm step)) = Some x"
    using assms by (simp add: two_loops_up two_loops_down while_up_returns while_down_returns)
next
  fix x :: "real list"
  show "\<exists>y. Some (if last x \<noteq> end_norm then x @ [end_norm] else x) = Some y" by simp
qed

lemma rotation_crosses_wall_returns:
  "\<exists>r. rotation_crosses_wall s e dir w1 w2 = Some r"
proof -
  have "0 < (2::real)" by simp
  from sample_arc_normalized_returns [OF this]
  obtain ps where "sample_arc_normalized (native_to_normalized s)
                     (native_to_normalized e) dir 2 = Some ps"
    by blast
  then show ?thesis
    by (auto simp add: rotation_crosses_wall_def split: option.splits prod.splits)
qed

lemma shortest_rotation_returns: "\<exists>r. shortest_rotation a b ap settings = Some r"
  unfolding shortest_rotation_def Let_def
  by (auto split: option.splits prod.splits intro!: bind_returns rotation_crosses_wall_returns)

lemma recall_preset_returns: "\<exists>r. recall_preset cam preset_data ap settings cp = Some r"
proof -
  have "\<exists>r. Option.bind (shortest_rotation a b ap' st) (case_option (Some x) f) = Some r"
    if "\<And>d. \<exists>y. f d = Some y" for a b ap' st x and f :: "real \<times> int \<Rightarrow> (controls_state \<times> presets_state) option"
  proof -
    obtain pl where "shortest_rotation a b ap' st = Some pl"
      using shortest_rotation_returns by blast
    then show ?thesis using that by (cases pl) auto
  qed
  then show ?thesis
    unfolding recall_preset_def Let_def
    by (auto split: option.splits prod.splits)
qed

end
